theory Spec2Isabelle
  imports Main "HOL-Library.Sublist" "HOL-Library.Word"
begin

unbundle bit_operations_syntax

section \<open>JavaScript primitives the generator relies on\<close>

text \<open>
  The generator class \<open>EPUBGenerator\<close> exists twice, in \<open>pdf-to-epub.ts\<close> and in
  \<open>public/app.jsx\<close>; the two copies differ in the image payload and in the whitespace of
  three separator lines of the package document only.

  Widths, heights and page numbers are JavaScript numbers. Both callers pass
  \<open>Math.round\<close> of the viewport size and the loop counter, so they are integers here.
  \<open>String(k)\<close> of an integer is its decimal numeral with a leading minus sign for a
  negative one.
\<close>

text \<open>The digit of a value below 16; it is only ever asked for such a value.\<close>

definition digit_char :: "nat \<Rightarrow> char" where
  "digit_char d = ''0123456789abcdef'' ! d"

fun dec :: "nat \<Rightarrow> string" where
  "dec n = (if n < 10 then [digit_char n] else dec (n div 10) @ [digit_char (n mod 10)])"

declare dec.simps [simp del]

definition toString :: "int \<Rightarrow> string" where
  "toString k = (if k < 0 then CHR ''-'' # dec (nat (- k)) else dec (nat k))"

text \<open>\<open>Math.max()\<close> of no arguments is \<open>-Infinity\<close>, which prints as such.\<close>

datatype jsnum = Num int | NegInfinity

fun jsnum_toString :: "jsnum \<Rightarrow> string" where
  "jsnum_toString (Num k) = toString k"
| "jsnum_toString NegInfinity = ''-Infinity''"

fun js_max :: "jsnum \<Rightarrow> jsnum \<Rightarrow> jsnum" where
  "js_max NegInfinity y = y"
| "js_max x NegInfinity = x"
| "js_max (Num a) (Num b) = Num (max a b)"

definition Math_max :: "int list \<Rightarrow> jsnum" where
  "Math_max xs = foldl js_max NegInfinity (map Num xs)"

text \<open>\<open>s.padStart(n, c)\<close> for a one-character pad string.\<close>

definition padStart :: "nat \<Rightarrow> char \<Rightarrow> string \<Rightarrow> string" where
  "padStart n c s = replicate (n - length s) c @ s"

text \<open>\<open>String(k).padStart(3, '0')\<close>, the \<open>num\<close> of every loop of the generator.\<close>

definition num :: "int \<Rightarrow> string" where
  "num k = padStart 3 (CHR ''0'') (toString k)"

text \<open>\<open>str.replace(/c/g, r)\<close> for a one-character pattern: every occurrence, left to right.\<close>

definition replaceAll :: "char \<Rightarrow> string \<Rightarrow> string \<Rightarrow> string" where
  "replaceAll c r str = concat (map (\<lambda>x. if x = c then r else [x]) str)"

text \<open>\<open>x || d\<close> on an optional string: \<open>undefined\<close> and the empty string are falsy.\<close>

fun or_default :: "string option \<Rightarrow> string \<Rightarrow> string" where
  "or_default None d = d"
| "or_default (Some s) d = (if s = [] then d else s)"

text \<open>\<open>s.split(c)\<close> and the indexing of its result, \<open>undefined\<close> out of range.\<close>

fun split_on :: "char \<Rightarrow> string \<Rightarrow> string list" where
  "split_on c [] = [[]]"
| "split_on c (x # xs) =
     (if x = c then [] # split_on c xs
      else (case split_on c xs of [] \<Rightarrow> [[x]] | p # ps \<Rightarrow> (x # p) # ps))"

definition nth_opt :: "'a list \<Rightarrow> nat \<Rightarrow> 'a option" where
  "nth_opt xs i = (if i < length xs then Some (xs ! i) else None)"

text \<open>
  \<open>new Date().toISOString().replace(/\.\d{3}Z$/, 'Z')\<close>: the clock reading \<open>clock\<close> is a
  parameter; a trailing dot, three digits and \<open>Z\<close> become \<open>Z\<close>.
\<close>

definition is_digit :: "char \<Rightarrow> bool" where
  "is_digit c = (c \<in> set ''0123456789'')"

definition strip_millis :: "string \<Rightarrow> string" where
  "strip_millis clock =
     (let k = length clock - 5 in
      (case drop k clock of
         [a, d1, d2, d3, z] \<Rightarrow>
           if a = CHR ''.'' \<and> is_digit d1 \<and> is_digit d2 \<and> is_digit d3 \<and> z = CHR ''Z''
           then take k clock @ ''Z'' else clock
       | _ \<Rightarrow> clock))"

section \<open>Book model\<close>

record 'img PageData =
  imageData :: 'img
  width :: int
  height :: int
  pageNum :: int

record 'img EPUBGenerator =
  title :: string
  author :: string
  language :: string
  uuid :: string
  pages :: "'img PageData list"

record EPUBOptions =
  opt_title :: "string option"
  opt_author :: "string option"
  opt_language :: "string option"
  opt_dpi :: "int option"

text \<open>
  \<open>generateUUID\<close>: every \<open>x\<close> and \<open>y\<close> of the template is replaced, left to right, by one
  hexadecimal digit. A draw is \<open>r = (Math.random() * 16) | 0\<close>, one of 0..15, so the random
  source is a sequence of 4-bit words and \<open>k\<close> counts the draws made so far.
\<close>

definition toString16 :: "4 word \<Rightarrow> string" where
  "toString16 v = [digit_char (unat v)]"

fun replace_xy :: "string \<Rightarrow> (nat \<Rightarrow> 4 word) \<Rightarrow> nat \<Rightarrow> string" where
  "replace_xy [] rnd k = []"
| "replace_xy (c # cs) rnd k =
     (if c = CHR ''x'' \<or> c = CHR ''y'' then
        (let r = rnd k;
             v = (if c = CHR ''x'' then r else (r AND 3) OR 8)
         in toString16 v @ replace_xy cs rnd (Suc k))
      else c # replace_xy cs rnd k)"

definition generateUUID :: "(nat \<Rightarrow> 4 word) \<Rightarrow> string" where
  "generateUUID rnd = replace_xy ''xxxxxxxx-xxxx-4xxx-yxxx-xxxxxxxxxxxx'' rnd 0"

definition new_EPUBGenerator :: "EPUBOptions \<Rightarrow> (nat \<Rightarrow> 4 word) \<Rightarrow> 'img EPUBGenerator" where
  "new_EPUBGenerator options rnd =
     \<lparr> title = or_default (opt_title options) ''Untitled'',
       author = or_default (opt_author options) ''Unknown'',
       language = or_default (opt_language options) ''en'',
       uuid = generateUUID rnd,
       pages = [] \<rparr>"

definition addPage ::
  "'img EPUBGenerator \<Rightarrow> 'img \<Rightarrow> int \<Rightarrow> int \<Rightarrow> int \<Rightarrow> 'img EPUBGenerator" where
  "addPage b img w h pn =
     b\<lparr> pages := pages b @ [\<lparr> imageData = img, width = w, height = h, pageNum = pn \<rparr>] \<rparr>"

section \<open>Document renderer\<close>

definition escapeXML :: "string \<Rightarrow> string" where
  "escapeXML str =
     replaceAll (CHR 0x27) ''&apos;''
       (replaceAll (CHR 0x22) ''&quot;''
         (replaceAll (CHR ''>'') ''&gt;''
           (replaceAll (CHR ''<'') ''&lt;''
             (replaceAll (CHR ''&'') ''&amp;'' str))))"

definition getMimetype :: string where
  "getMimetype = ''application/epub+zip''"

definition getContainer :: string where
  \<open>getContainer =
     ''<?xml version="1.0" encoding="UTF-8"?>\<newline>'' @
     ''<container version="1.0" xmlns="urn:oasis:names:tc:opendocument:xmlns:container">\<newline>'' @
     ''  <rootfiles>\<newline>'' @
     ''    <rootfile full-path="OEBPS/content.opf" media-type="application/oebps-package+xml"/>\<newline>'' @
     ''  </rootfiles>\<newline>'' @
     ''</container>''\<close>

definition maxWidth :: "'img EPUBGenerator \<Rightarrow> jsnum" where
  "maxWidth b = Math_max (map width (pages b))"

definition maxHeight :: "'img EPUBGenerator \<Rightarrow> jsnum" where
  "maxHeight b = Math_max (map height (pages b))"

text \<open>
  The manifest and the spine are built by appending one line per loop round; here each is
  the list of its lines, in the order appended, and the text is their concatenation. The
  index \<open>i\<close> is the 0-based position of a page in \<open>pages\<close>.
\<close>

definition manifest_fixed_items :: "string list" where
  \<open>manifest_fixed_items =
    [''    <item id="css" href="styles/fixed-layout.css" media-type="text/css"/>\<newline>'',
     ''    <item id="ncx" href="toc.ncx" media-type="application/x-dtbncx+xml"/>\<newline>'',
     ''    <item id="nav" href="nav.xhtml" media-type="application/xhtml+xml" properties="nav"/>\<newline>'']\<close>

definition manifest_page_item :: "nat \<Rightarrow> string" where
  \<open>manifest_page_item i =
     (let n = num (int i + 1) in
      ''    <item id="page'' @ n @ ''" href="xhtml/page_'' @ n @ ''.xhtml" media-type="application/xhtml+xml"/>\<newline>'')\<close>

definition manifest_image_item :: "nat \<Rightarrow> string" where
  \<open>manifest_image_item i =
     (let n = num (int i + 1);
          props = (if i = 0 then '' properties="cover-image"'' else '''') in
      ''    <item id="img'' @ n @ ''" href="images/page_'' @ n @ ''.png" media-type="image/png"'' @ props @ ''/>\<newline>'')\<close>

definition manifest_items :: "'img EPUBGenerator \<Rightarrow> string list" where
  "manifest_items b =
     manifest_fixed_items
     @ map manifest_page_item [0..<length (pages b)]
     @ map manifest_image_item [0..<length (pages b)]"

definition manifest :: "'img EPUBGenerator \<Rightarrow> string" where
  "manifest b = concat (manifest_items b)"

definition spine_item :: "nat \<Rightarrow> string" where
  \<open>spine_item i =
     (let n = num (int i + 1) in
      ''    <itemref idref="page'' @ n @ ''" properties="rendition:layout-pre-paginated rendition:spread-none"/>\<newline>'')\<close>

definition spine :: "'img EPUBGenerator \<Rightarrow> string" where
  "spine b = concat (map spine_item [0..<length (pages b)])"

text \<open>
  The package document. \<open>gap\<close> is the text of the three separator lines: two blanks in
  \<open>pdf-to-epub.ts\<close>, nothing in \<open>app.jsx\<close>.
\<close>

definition opf_template :: "string \<Rightarrow> string \<Rightarrow> 'img EPUBGenerator \<Rightarrow> string" where
  \<open>opf_template gap clock b =
     (let now = strip_millis clock in
     ''<?xml version="1.0" encoding="UTF-8"?>\<newline>'' @
     ''<package xmlns="http://www.idpf.org/2007/opf" version="3.0" unique-identifier="bookid" prefix="rendition: http://www.idpf.org/vocab/rendition/#">\<newline>'' @
     ''  <metadata xmlns:dc="http://purl.org/dc/elements/1.1/" xmlns:opf="http://www.idpf.org/2007/opf">\<newline>'' @
     ''    <dc:identifier id="bookid">urn:uuid:'' @ uuid b @ ''</dc:identifier>\<newline>'' @
     ''    <dc:title>'' @ escapeXML (title b) @ ''</dc:title>\<newline>'' @
     ''    <dc:language>'' @ language b @ ''</dc:language>\<newline>'' @
     ''    <dc:creator>'' @ escapeXML (author b) @ ''</dc:creator>\<newline>'' @
     ''    <meta property="dcterms:modified">'' @ now @ ''</meta>\<newline>'' @
     ''    <meta property="rendition:layout">pre-paginated</meta>\<newline>'' @
     ''    <meta property="rendition:orientation">portrait</meta>\<newline>'' @
     ''    <meta property="rendition:spread">none</meta>\<newline>'' @
     ''    <meta name="fixed-layout" content="true"/>\<newline>'' @
     ''    <meta name="original-resolution" content="'' @ jsnum_toString (maxWidth b) @ ''x'' @ jsnum_toString (maxHeight b) @ ''"/>\<newline>'' @
     ''  </metadata>\<newline>'' @
     gap @ ''\<newline>'' @
     ''  <manifest>\<newline>'' @
     manifest b @ ''  </manifest>\<newline>'' @
     gap @ ''\<newline>'' @
     ''  <spine toc="ncx" page-progression-direction="ltr">\<newline>'' @
     spine b @ ''  </spine>\<newline>'' @
     gap @ ''\<newline>'' @
     ''  <guide>\<newline>'' @
     ''    <reference type="cover" title="Cover" href="xhtml/page_001.xhtml"/>\<newline>'' @
     ''  </guide>\<newline>'' @
     ''</package>'')\<close>

definition getContentOPF :: "string \<Rightarrow> 'img EPUBGenerator \<Rightarrow> string" where
  "getContentOPF = opf_template ''  ''"

definition getContentOPF_jsx :: "string \<Rightarrow> 'img EPUBGenerator \<Rightarrow> string" where
  "getContentOPF_jsx = opf_template ''''"

definition navPoint :: "nat \<Rightarrow> string" where
  \<open>navPoint i =
     (let n = num (int i + 1) in
     ''    <navPoint id="navpoint'' @ toString (int i + 1) @ ''" playOrder="'' @ toString (int i + 1) @ ''">\<newline>'' @
     ''      <navLabel>\<newline>'' @
     ''        <text>Page '' @ toString (int i + 1) @ ''</text>\<newline>'' @
     ''      </navLabel>\<newline>'' @
     ''      <content src="xhtml/page_'' @ n @ ''.xhtml"/>\<newline>'' @
     ''    </navPoint>\<newline>'')\<close>

definition navPoint_items :: "'img EPUBGenerator \<Rightarrow> string list" where
  "navPoint_items b = map navPoint [0..<length (pages b)]"

definition navPoints :: "'img EPUBGenerator \<Rightarrow> string" where
  "navPoints b = concat (navPoint_items b)"

definition getNCX :: "'img EPUBGenerator \<Rightarrow> string" where
  \<open>getNCX b =
     ''<?xml version="1.0" encoding="UTF-8"?>\<newline>'' @
     ''<!DOCTYPE ncx PUBLIC "-//NISO//DTD ncx 2005-1//EN" "http://www.daisy.org/z3986/2005/ncx-2005-1.dtd">\<newline>'' @
     ''<ncx xmlns="http://www.daisy.org/z3986/2005/ncx/" version="2005-1">\<newline>'' @
     ''  <head>\<newline>'' @
     ''    <meta name="dtb:uid" content="urn:uuid:'' @ uuid b @ ''"/>\<newline>'' @
     ''    <meta name="dtb:depth" content="1"/>\<newline>'' @
     ''    <meta name="dtb:totalPageCount" content="'' @ toString (int (length (pages b))) @ ''"/>\<newline>'' @
     ''    <meta name="dtb:maxPageNumber" content="'' @ toString (int (length (pages b))) @ ''"/>\<newline>'' @
     ''  </head>\<newline>'' @
     ''  <docTitle>\<newline>'' @
     ''    <text>'' @ escapeXML (title b) @ ''</text>\<newline>'' @
     ''  </docTitle>\<newline>'' @
     ''  <navMap>\<newline>'' @
     navPoints b @ ''  </navMap>\<newline>'' @
     ''</ncx>''\<close>

definition toc_item :: "nat \<Rightarrow> string" where
  \<open>toc_item i =
     (let n = num (int i + 1) in
      ''      <li><a href="xhtml/page_'' @ n @ ''.xhtml">Page '' @ toString (int i + 1) @ ''</a></li>\<newline>'')\<close>

definition pageList_item :: "nat \<Rightarrow> string" where
  \<open>pageList_item i =
     (let n = num (int i + 1) in
      ''      <li><a href="xhtml/page_'' @ n @ ''.xhtml">'' @ toString (int i + 1) @ ''</a></li>\<newline>'')\<close>

definition toc :: "'img EPUBGenerator \<Rightarrow> string" where
  "toc b = concat (map toc_item [0..<length (pages b)])"

definition pageList :: "'img EPUBGenerator \<Rightarrow> string" where
  "pageList b = concat (map pageList_item [0..<length (pages b)])"

definition getNav :: "'img EPUBGenerator \<Rightarrow> string" where
  \<open>getNav b =
     ''<?xml version="1.0" encoding="UTF-8"?>\<newline>'' @
     ''<!DOCTYPE html>\<newline>'' @
     ''<html xmlns="http://www.w3.org/1999/xhtml" xmlns:epub="http://www.idpf.org/2007/ops" xml:lang="'' @ language b @ ''">\<newline>'' @
     ''<head>\<newline>'' @
     ''  <meta charset="UTF-8"/>\<newline>'' @
     ''  <title>Table of Contents</title>\<newline>'' @
     ''  <link rel="stylesheet" type="text/css" href="styles/fixed-layout.css"/>\<newline>'' @
     ''</head>\<newline>'' @
     ''<body>\<newline>'' @
     ''  <nav epub:type="toc" id="toc">\<newline>'' @
     ''    <h1>Contents</h1>\<newline>'' @
     ''    <ol>\<newline>'' @
     toc b @ ''    </ol>\<newline>'' @
     ''  </nav>\<newline>'' @
     ''  <nav epub:type="page-list">\<newline>'' @
     ''    <ol>\<newline>'' @
     pageList b @ ''    </ol>\<newline>'' @
     ''  </nav>\<newline>'' @
     ''</body>\<newline>'' @
     ''</html>''\<close>

definition getCSS :: string where
  \<open>getCSS =
     ''@charset "UTF-8";\<newline>'' @
     ''\<newline>'' @
     ''html, body {\<newline>'' @
     ''  margin: 0;\<newline>'' @
     ''  padding: 0;\<newline>'' @
     ''  width: 100%;\<newline>'' @
     ''  height: 100%;\<newline>'' @
     ''  overflow: hidden;\<newline>'' @
     ''}\<newline>'' @
     ''\<newline>'' @
     ''body {\<newline>'' @
     ''  background-color: #ffffff;\<newline>'' @
     ''}\<newline>'' @
     ''\<newline>'' @
     ''.page-image {\<newline>'' @
     ''  width: 100%;\<newline>'' @
     ''  height: 100%;\<newline>'' @
     ''  object-fit: contain;\<newline>'' @
     ''  display: block;\<newline>'' @
     ''}\<newline>'' @
     ''\<newline>'' @
     ''div.page-container {\<newline>'' @
     ''  width: 100%;\<newline>'' @
     ''  height: 100%;\<newline>'' @
     ''  margin: 0;\<newline>'' @
     ''  padding: 0;\<newline>'' @
     ''  position: absolute;\<newline>'' @
     ''  top: 0;\<newline>'' @
     ''  left: 0;\<newline>'' @
     ''}''\<close>

definition getPageXHTML :: "'img EPUBGenerator \<Rightarrow> int \<Rightarrow> int \<Rightarrow> int \<Rightarrow> string" where
  \<open>getPageXHTML b pn w h =
     (let n = num pn in
     ''<?xml version="1.0" encoding="UTF-8"?>\<newline>'' @
     ''<!DOCTYPE html>\<newline>'' @
     ''<html xmlns="http://www.w3.org/1999/xhtml" xmlns:epub="http://www.idpf.org/2007/ops" xml:lang="'' @ language b @ ''">\<newline>'' @
     ''<head>\<newline>'' @
     ''  <meta charset="UTF-8"/>\<newline>'' @
     ''  <meta name="viewport" content="width='' @ toString w @ '', height='' @ toString h @ ''"/>\<newline>'' @
     ''  <title>Page '' @ toString pn @ ''</title>\<newline>'' @
     ''  <link rel="stylesheet" type="text/css" href="../styles/fixed-layout.css"/>\<newline>'' @
     ''  <style type="text/css">\<newline>'' @
     ''    html, body {\<newline>'' @
     ''      width: '' @ toString w @ ''px;\<newline>'' @
     ''      height: '' @ toString h @ ''px;\<newline>'' @
     ''      margin: 0;\<newline>'' @
     ''      padding: 0;\<newline>'' @
     ''    }\<newline>'' @
     ''  </style>\<newline>'' @
     ''</head>\<newline>'' @
     ''<body>\<newline>'' @
     ''  <div class="page-container">\<newline>'' @
     ''    <img src="../images/page_'' @ n @ ''.png" alt="Page '' @ toString pn @ ''" class="page-image"/>\<newline>'' @
     ''  </div>\<newline>'' @
     ''</body>\<newline>'' @
     ''</html>'')\<close>

section \<open>Archive assembler\<close>

text \<open>
  \<open>generate\<close> hands the archive writer one \<open>zip.file(name, data, options)\<close> call per entry, and
  it is modelled as the sequence of these calls, in the order made. The writer itself (JSZip)
  and its final, asynchronous serialisation are outside the generator: the records of the
  archive it returns are not this sequence, since the writer adds a folder record for every
  directory of a name and keeps one entry per name, a later call replacing an earlier one of
  the same name.
\<close>

record zip_options =
  compression :: "string option"
  base64 :: bool

definition no_options :: zip_options where
  "no_options = \<lparr> compression = None, base64 = False \<rparr>"

datatype 'img zip_data = Str string | Raw 'img | Undefined

record 'img zip_entry =
  name :: string
  data :: "'img zip_data"
  options :: zip_options

definition zip_file :: "string \<Rightarrow> 'img zip_data \<Rightarrow> zip_options \<Rightarrow> 'img zip_entry" where
  "zip_file nm d opts = \<lparr> name = nm, data = d, options = opts \<rparr>"

definition fixed_entries :: "string \<Rightarrow> 'img EPUBGenerator \<Rightarrow> 'img zip_entry list" where
  "fixed_entries opf b =
     [ zip_file ''mimetype'' (Str getMimetype) (no_options\<lparr> compression := Some ''STORE'' \<rparr>),
       zip_file ''META-INF/container.xml'' (Str getContainer) no_options,
       zip_file ''OEBPS/content.opf'' (Str opf) no_options,
       zip_file ''OEBPS/toc.ncx'' (Str (getNCX b)) no_options,
       zip_file ''OEBPS/nav.xhtml'' (Str (getNav b)) no_options,
       zip_file ''OEBPS/styles/fixed-layout.css'' (Str getCSS) no_options ]"

text \<open>One round of the loop over \<open>pages\<close> in \<open>pdf-to-epub.ts\<close>: the image is a Buffer.\<close>

definition page_entries :: "'img EPUBGenerator \<Rightarrow> 'img PageData \<Rightarrow> 'img zip_entry list" where
  "page_entries b page =
     (let n = num (pageNum page) in
      [ zip_file (''OEBPS/xhtml/page_'' @ n @ ''.xhtml'')
          (Str (getPageXHTML b (pageNum page) (width page) (height page))) no_options,
        zip_file (''OEBPS/images/page_'' @ n @ ''.png'') (Raw (imageData page)) no_options ])"

definition generate :: "string \<Rightarrow> 'img EPUBGenerator \<Rightarrow> 'img zip_entry list" where
  "generate clock b =
     fixed_entries (getContentOPF clock b) b @ concat (map (page_entries b) (pages b))"

text \<open>
  One round of the loop in \<open>app.jsx\<close>: the image is a data URL, and the part after its
  first comma is handed over as base64 text.
\<close>

definition page_entries_jsx :: "string EPUBGenerator \<Rightarrow> string PageData \<Rightarrow> string zip_entry list" where
  "page_entries_jsx b page =
     (let n = num (pageNum page);
          imageData' = nth_opt (split_on (CHR '','') (imageData page)) 1 in
      [ zip_file (''OEBPS/xhtml/page_'' @ n @ ''.xhtml'')
          (Str (getPageXHTML b (pageNum page) (width page) (height page))) no_options,
        zip_file (''OEBPS/images/page_'' @ n @ ''.png'')
          (case imageData' of None \<Rightarrow> Undefined | Some s \<Rightarrow> Str s)
          (no_options\<lparr> base64 := True \<rparr>) ])"

definition generate_jsx :: "string \<Rightarrow> string EPUBGenerator \<Rightarrow> string zip_entry list" where
  "generate_jsx clock b =
     fixed_entries (getContentOPF_jsx clock b) b @ concat (map (page_entries_jsx b) (pages b))"

section \<open>Notions the properties are stated with\<close>

text \<open>
  What an XML parser does to character data with the five predefined entities, in one pass
  from the left. An ampersand that starts none of them is kept.
\<close>

function unescapeXML :: "string \<Rightarrow> string" where
  "unescapeXML [] = []"
| "unescapeXML (c # cs) =
     (if c = CHR ''&'' then
        (if prefix ''amp;'' cs then CHR ''&'' # unescapeXML (drop 4 cs)
         else if prefix ''lt;'' cs then CHR ''<'' # unescapeXML (drop 3 cs)
         else if prefix ''gt;'' cs then CHR ''>'' # unescapeXML (drop 3 cs)
         else if prefix ''quot;'' cs then CHR 0x22 # unescapeXML (drop 5 cs)
         else if prefix ''apos;'' cs then CHR 0x27 # unescapeXML (drop 5 cs)
         else c # unescapeXML cs)
      else c # unescapeXML cs)"
  by pat_completeness auto
termination
  by (relation "measure length") auto

text \<open>
  A text in which the five special characters occur only inside one of the five entities:
  every ampersand starts an entity, and no other special character stands alone.
\<close>

function entities_only :: "string \<Rightarrow> bool" where
  "entities_only [] = True"
| "entities_only (c # cs) =
     (if c = CHR ''&'' then
        (if prefix ''amp;'' cs then entities_only (drop 4 cs)
         else if prefix ''lt;'' cs then entities_only (drop 3 cs)
         else if prefix ''gt;'' cs then entities_only (drop 3 cs)
         else if prefix ''quot;'' cs then entities_only (drop 5 cs)
         else if prefix ''apos;'' cs then entities_only (drop 5 cs)
         else False)
      else c \<notin> set [CHR ''<'', CHR ''>'', CHR 0x22, CHR 0x27] \<and> entities_only cs)"
  by pat_completeness auto
termination
  by (relation "measure length") auto

text \<open>The entity each character is replaced by; every other character stays.\<close>

definition esc_char :: "char \<Rightarrow> string" where
  "esc_char c =
     (if c = CHR ''&'' then ''&amp;'' else if c = CHR ''<'' then ''&lt;''
      else if c = CHR ''>'' then ''&gt;'' else if c = CHR 0x22 then ''&quot;''
      else if c = CHR 0x27 then ''&apos;'' else [c])"

text \<open>
  The identifier pattern: an \<open>x\<close> stands for any hexadecimal digit, a \<open>y\<close> for one of
  8, 9, a, b, and every other character for itself.
\<close>

definition is_hex :: "char \<Rightarrow> bool" where
  "is_hex c = (c \<in> set ''0123456789abcdef'')"

fun matches_pattern :: "string \<Rightarrow> string \<Rightarrow> bool" where
  "matches_pattern [] [] = True"
| "matches_pattern (p # ps) (c # cs) =
     ((if p = CHR ''x'' then is_hex c
       else if p = CHR ''y'' then c \<in> set ''89ab''
       else c = p) \<and> matches_pattern ps cs)"
| "matches_pattern _ _ = False"

definition uuid_v4_shape :: "string \<Rightarrow> bool" where
  "uuid_v4_shape s = matches_pattern ''xxxxxxxx-xxxx-4xxx-yxxx-xxxxxxxxxxxx'' s"

text \<open>
  What a caller can do with a Book once it is constructed: append a page, assign a metadata
  field, or generate, which reads the Book and leaves it as it is.
\<close>

datatype 'img action =
    AddPage 'img int int int
  | SetTitle string
  | SetAuthor string
  | SetLanguage string
  | Generate string

fun perform :: "'img EPUBGenerator \<Rightarrow> 'img action \<Rightarrow> 'img EPUBGenerator" where
  "perform b (AddPage img w h pn) = addPage b img w h pn"
| "perform b (SetTitle s) = b\<lparr> title := s \<rparr>"
| "perform b (SetAuthor s) = b\<lparr> author := s \<rparr>"
| "perform b (SetLanguage s) = b\<lparr> language := s \<rparr>"
| "perform b (Generate clock) = b"

text \<open>
  The entry sequence of section 4.3 of the specification read as a sequence: the six fixed
  entries, then every page's markup entry, then every page's image entry.
\<close>

definition fixed_names :: "string list" where
  "fixed_names =
     [''mimetype'', ''META-INF/container.xml'', ''OEBPS/content.opf'', ''OEBPS/toc.ncx'',
      ''OEBPS/nav.xhtml'', ''OEBPS/styles/fixed-layout.css'']"

definition section_4_3_sequence :: "'img EPUBGenerator \<Rightarrow> string list" where
  "section_4_3_sequence b =
     fixed_names
     @ map (\<lambda>p. ''OEBPS/xhtml/page_'' @ num (pageNum p) @ ''.xhtml'') (pages b)
     @ map (\<lambda>p. ''OEBPS/images/page_'' @ num (pageNum p) @ ''.png'') (pages b)"

text \<open>A manifest line carries the cover marker when the attribute occurs in it.\<close>

definition has_cover_image :: "string \<Rightarrow> bool" where
  \<open>has_cover_image line = sublist ''properties="cover-image"'' line\<close>

text \<open>A number below 1000 written with exactly three decimal digits.\<close>

definition three_digits :: "nat \<Rightarrow> string" where
  "three_digits k = [digit_char (k div 100), digit_char (k div 10 mod 10), digit_char (k mod 10)]"

text \<open>The navigation point of the page at the 1-based position \<open>k\<close>, with the position written in three digits.\<close>

definition expected_navPoint :: "nat \<Rightarrow> string" where
  \<open>expected_navPoint k =
     ''    <navPoint id="navpoint'' @ dec k @ ''" playOrder="'' @ dec k @ ''">\<newline>'' @
     ''      <navLabel>\<newline>'' @
     ''        <text>Page '' @ dec k @ ''</text>\<newline>'' @
     ''      </navLabel>\<newline>'' @
     ''      <content src="xhtml/page_'' @ three_digits k @ ''.xhtml"/>\<newline>'' @
     ''    </navPoint>\<newline>''\<close>

subsection \<open>Concrete books\<close>

definition no_metadata :: EPUBOptions where
  "no_metadata = \<lparr> opt_title = None, opt_author = None, opt_language = None, opt_dpi = None \<rparr>"

definition zero_draws :: "nat \<Rightarrow> 4 word" where
  "zero_draws k = 0"

definition png_stub :: "8 word list" where
  "png_stub = [0x89, 0x50, 0x4E, 0x47]"

definition clock_reading :: string where
  "clock_reading = ''2024-05-06T07:08:09.123Z''"

text \<open>Scenario A of the specification: one page of 300 by 400 pixels.\<close>

definition scenario_A :: "8 word list EPUBGenerator" where
  "scenario_A =
     addPage
       (new_EPUBGenerator
          \<lparr> opt_title = Some ''Test'', opt_author = Some ''Author & Co.'',
            opt_language = Some ''en'', opt_dpi = None \<rparr> zero_draws)
       png_stub 300 400 1"

definition empty_book :: "8 word list EPUBGenerator" where
  "empty_book = new_EPUBGenerator no_metadata zero_draws"

definition two_pages :: "8 word list EPUBGenerator" where
  "two_pages =
     addPage (addPage (new_EPUBGenerator no_metadata zero_draws) png_stub 300 400 1)
       png_stub 640 200 2"

text \<open>Scenario B: twelve pages, numbered as the callers number them.\<close>

definition twelve_pages :: "8 word list EPUBGenerator" where
  "twelve_pages =
     foldl (\<lambda>b k. addPage b png_stub 300 400 (int k))
       (new_EPUBGenerator no_metadata zero_draws) [1..<13]"


definition data_url_book :: "string EPUBGenerator" where
  "data_url_book =
     addPage (new_EPUBGenerator no_metadata zero_draws) ''data:image/png;base64,iVBORw0KGgo='' 300 400 1"

subsection \<open>Reading a padded number back\<close>




subsection \<open>References between the documents\<close>







section \<open>Facts about the primitives\<close>

lemma sublist_append_cases:
  "sublist xs (ys @ zs) \<longleftrightarrow>
     sublist xs zs \<or> sublist xs ys \<or>
     (\<exists>xs1 xs2. xs = xs1 @ xs2 \<and> suffix xs1 ys \<and> prefix xs2 zs)"
  by (auto simp: sublist_append)

lemmas find_text = sublist_Cons_right sublist_append_cases

lemma replaceAll_append: "replaceAll c r (xs @ ys) = replaceAll c r xs @ replaceAll c r ys"
  by (simp add: replaceAll_def)

lemma escapeXML_Nil: "escapeXML [] = []"
  by (simp add: escapeXML_def replaceAll_def)

lemma escapeXML_append: "escapeXML (xs @ ys) = escapeXML xs @ escapeXML ys"
  by (simp add: escapeXML_def replaceAll_append)

lemma escapeXML_single: "escapeXML [c] = esc_char c"
  by (simp add: escapeXML_def replaceAll_def esc_char_def)

text \<open>The five replacements in a row act on each character by itself.\<close>

lemma escapeXML_Cons: "escapeXML (c # cs) = esc_char c @ escapeXML cs"
  using escapeXML_append [of "[c]" cs] by (simp add: escapeXML_single)

lemma escapeXML_chars: "escapeXML s = concat (map esc_char s)"
  by (induction s) (simp_all add: escapeXML_Nil escapeXML_Cons)

lemma unescapeXML_escapeXML: "unescapeXML (escapeXML s) = s"
  by (induction s) (auto simp: escapeXML_Nil escapeXML_Cons esc_char_def)

lemma entities_only_escapeXML: "entities_only (escapeXML s)"
  by (induction s) (auto simp: escapeXML_Nil escapeXML_Cons esc_char_def)

lemma unat4_cases: "unat (v :: 4 word) \<in> {0,1,2,3,4,5,6,7,8,9,10,11,12,13,14,15}"
proof -
  have "unat v < 16" using unsigned_less [of v] by simp
  then show ?thesis by (simp add: atLeastLessThan_def [symmetric]) arith
qed

lemma word4_cases: "(v :: 4 word) \<in> {0,1,2,3,4,5,6,7,8,9,10,11,12,13,14,15}"
  using unat4_cases [of v] by (simp add: word_unat_eq_iff)

lemma toString16_hex: "\<exists>c. toString16 v = [c] \<and> is_hex c"
  using unat4_cases [of v] by (auto simp: toString16_def digit_char_def is_hex_def)

lemma toString16_variant: "\<exists>c. toString16 (r AND 3 OR 8) = [c] \<and> c \<in> set ''89ab''"
  using word4_cases [of r] by (auto simp: toString16_def digit_char_def)

lemma replace_xy_matches: "matches_pattern t (replace_xy t rnd k)"
proof (induction t arbitrary: k)
  case Nil
  show ?case by simp
next
  case (Cons p t)
  obtain c where c: "toString16 (rnd k) = [c]" "is_hex c"
    using toString16_hex by blast
  obtain d where d: "toString16 (rnd k AND 3 OR 8) = [d]" "d \<in> set ''89ab''"
    using toString16_variant by blast
  show ?case using Cons [of k] Cons [of "Suc k"] c d by (simp add: Let_def)
qed

lemma Math_max_from: "foldl js_max (Num a) (map Num xs) = Num (Max (insert a (set xs)))"
proof (induction xs arbitrary: a)
  case Nil
  show ?case by simp
next
  case (Cons x xs)
  have "Max (insert (max a x) (set xs)) = Max (insert a (insert x (set xs)))"
    by (cases "set xs = {}") (simp_all add: max.assoc)
  then show ?case using Cons by simp
qed

lemma Math_max_nonempty: "xs \<noteq> [] \<Longrightarrow> Math_max xs = Num (Max (set xs))"
  by (cases xs) (simp_all add: Math_max_def Math_max_from)

text \<open>Numerals: their characters, their value, and the padded form.\<close>

lemma num_1: "num 1 = ''001''"
  by (simp add: num_def padStart_def toString_def dec.simps digit_char_def numeral_2_eq_2)

lemma num_2: "num 2 = ''002''"
  by (simp add: num_def padStart_def toString_def dec.simps digit_char_def numeral_2_eq_2)

lemma digit_char_digit: "d < 10 \<Longrightarrow> is_digit (digit_char d)"
proof -
  assume "d < 10"
  then have "d \<in> {0,1,2,3,4,5,6,7,8,9}" by auto
  then show ?thesis by (auto simp: digit_char_def is_digit_def)
qed


lemma digits_dec: "list_all is_digit (dec n)"
proof (induction n rule: dec.induct)
  case (1 n)
  show ?case
  proof (cases "n < 10")
    case True
    then show ?thesis by (subst dec.simps) (simp add: digit_char_digit)
  next
    case False
    then show ?thesis using 1 by (subst dec.simps) (simp add: digit_char_digit)
  qed
qed

lemma chars_num: "list_all (\<lambda>c. is_digit c \<or> c = CHR ''-'') (num k)"
proof -
  have z: "is_digit (CHR ''0'')" by (simp add: is_digit_def)
  have "list_all (\<lambda>c. is_digit c \<or> c = CHR ''-'') (dec n)" for n
    using digits_dec [of n] by (simp add: list_all_iff)
  then show ?thesis
    using z by (auto simp: num_def padStart_def toString_def list_all_iff)
qed










lemma no_v_num: "CHR ''v'' \<notin> set (num k)"
proof -
  have "\<not> (is_digit (CHR ''v'') \<or> CHR ''v'' = CHR ''-'')" by (simp add: is_digit_def)
  then show ?thesis using chars_num [of k] by (auto simp: list_all_iff)
qed

lemma dec_less_10: "n < 10 \<Longrightarrow> dec n = [digit_char n]"
  by (subst dec.simps) simp

lemma dec_from_10: "\<not> n < 10 \<Longrightarrow> dec n = dec (n div 10) @ [digit_char (n mod 10)]"
  by (subst dec.simps) simp

lemma toString_nat: "toString (int i + 1) = dec (Suc i)"
  by (simp add: toString_def nat_add_distrib)

lemma num_three_digits:
  assumes "k \<le> 999"
  shows "num (int k) = three_digits k"
proof -
  have z: "digit_char 0 = CHR ''0''" by (simp add: digit_char_def)
  have t: "toString (int k) = dec k" by (simp add: toString_def)
  consider "k < 10" | "10 \<le> k" "k < 100" | "100 \<le> k" using assms by linarith
  then show ?thesis
  proof cases
    case 1
    then show ?thesis
      by (simp add: num_def padStart_def t dec_less_10 three_digits_def z numeral_2_eq_2)
  next
    case 2
    then have "k div 10 < 10" by simp
    then show ?thesis
      using 2 by (simp add: num_def padStart_def t dec_less_10 dec_from_10 three_digits_def z)
  next
    case 3
    then have a: "\<not> k div 10 < 10" and b: "k div 10 div 10 < 10" and c: "\<not> k < 10"
      using assms by simp_all
    have d: "k div 10 div 10 = k div 100" by (simp add: div_mult2_eq)
    show ?thesis
      using b by (simp add: num_def padStart_def t dec_from_10 [OF c] dec_from_10 [OF a]
          dec_less_10 d three_digits_def)
  qed
qed

section \<open>Facts about the documents\<close>

lemma opf_identifier:
  \<open>sublist (''<dc:identifier id="bookid">urn:uuid:'' @ uuid b @ ''</dc:identifier>'')
     (opf_template gap clock b)\<close>
  by (simp add: opf_template_def Let_def find_text)

lemma opf_title:
  \<open>sublist (''<dc:title>'' @ escapeXML (title b) @ ''</dc:title>'') (opf_template gap clock b)\<close>
  by (simp add: opf_template_def Let_def find_text)

lemma opf_creator:
  \<open>sublist (''<dc:creator>'' @ escapeXML (author b) @ ''</dc:creator>'')
     (opf_template gap clock b)\<close>
  by (simp add: opf_template_def Let_def find_text)

lemma opf_resolution:
  \<open>sublist
     (''<meta name="original-resolution" content="''
        @ jsnum_toString (maxWidth b) @ ''x'' @ jsnum_toString (maxHeight b) @ ''"/>'')
     (opf_template gap clock b)\<close>
  by (simp add: opf_template_def Let_def find_text)

lemma ncx_uid:
  \<open>sublist (''<meta name="dtb:uid" content="urn:uuid:'' @ uuid b @ ''"/>'') (getNCX b)\<close>
  by (simp add: getNCX_def find_text)

lemma perform_uuid: "uuid (perform b a) = uuid b"
  by (cases a) (simp_all add: addPage_def)

lemma perform_all_uuid: "uuid (foldl perform b as) = uuid b"
  by (induction as arbitrary: b) (simp_all add: perform_uuid)

lemma no_v_no_cover: "CHR ''v'' \<notin> set line \<Longrightarrow> \<not> has_cover_image line"
proof
  assume v: "CHR ''v'' \<notin> set line" and h: "has_cover_image line"
  from h have \<open>sublist ''properties="cover-image"'' line\<close>
    by (simp only: has_cover_image_def)
  then have \<open>set ''properties="cover-image"'' \<subseteq> set line\<close>
    by (rule set_mono_sublist)
  then show False using v by simp
qed

lemma page_item_no_cover: "\<not> has_cover_image (manifest_page_item i)"
  by (rule no_v_no_cover) (simp add: manifest_page_item_def Let_def no_v_num)

lemma later_image_item_no_cover: "i \<noteq> 0 \<Longrightarrow> \<not> has_cover_image (manifest_image_item i)"
  by (rule no_v_no_cover) (simp add: manifest_image_item_def Let_def no_v_num)

lemma first_image_item:
  \<open>manifest_image_item 0 =
     ''    <item id="img001" href="images/page_001.png" media-type="image/png" properties="cover-image"/>\<newline>''\<close>
  by (simp add: manifest_image_item_def num_1)

lemma first_image_item_cover: "has_cover_image (manifest_image_item 0)"
  unfolding first_image_item has_cover_image_def by (simp add: find_text)

lemma image_item_cover: "has_cover_image (manifest_image_item i) \<longleftrightarrow> i = 0"
  using first_image_item_cover later_image_item_no_cover by (cases "i = 0") simp_all

lemma fixed_items_no_cover: "list_all (\<lambda>x. \<not> has_cover_image x) manifest_fixed_items"
  by (simp add: manifest_fixed_items_def has_cover_image_def find_text)

lemma cover_items:
  assumes "pages b \<noteq> []"
  shows "filter has_cover_image (manifest_items b) = [manifest_image_item 0]"
proof -
  let ?n = "length (pages b)"
  have f: "filter has_cover_image manifest_fixed_items = []"
    using fixed_items_no_cover by (simp add: list_all_iff)
  have p: "filter has_cover_image (map manifest_page_item [0..<?n]) = []"
    by (simp add: page_item_no_cover)
  have "0 < ?n" using assms by simp
  then have u: "[0..<?n] = 0 # [1..<?n]" by (simp add: upt_conv_Cons)
  have "filter has_cover_image (map manifest_image_item [1..<?n]) = []"
    by (simp add: image_item_cover)
  then have i: "filter has_cover_image (map manifest_image_item [0..<?n]) = [manifest_image_item 0]"
    by (subst u) (simp add: image_item_cover)
  show ?thesis by (simp add: manifest_items_def f p i)
qed

lemma opf_manifest:
  \<open>sublist (''  <manifest>\<newline>'' @ concat (manifest_items b) @ ''  </manifest>'')
     (opf_template gap clock b)\<close>
  by (simp add: opf_template_def Let_def manifest_def find_text)

lemma navPoint_expected: "i < 999 \<Longrightarrow> navPoint i = expected_navPoint (Suc i)"
proof -
  assume "i < 999"
  then have "num (int (Suc i)) = three_digits (Suc i)" by (intro num_three_digits) simp
  then have n: "num (int i + 1) = three_digits (Suc i)" by (simp add: add.commute)
  show ?thesis by (simp add: navPoint_def expected_navPoint_def toString_nat n)
qed

lemma navPoint_items_expected:
  assumes "length (pages b) \<le> 999"
  shows "navPoint_items b = map expected_navPoint [1..<Suc (length (pages b))]"
proof -
  have "map navPoint [0..<length (pages b)] = map (expected_navPoint \<circ> Suc) [0..<length (pages b)]"
    using assms by (simp add: navPoint_expected)
  also have "\<dots> = map expected_navPoint (map Suc [0..<length (pages b)])" by simp
  also have "\<dots> = map expected_navPoint [1..<Suc (length (pages b))]"
    by (simp only: map_Suc_upt One_nat_def)
  finally show ?thesis by (simp add: navPoint_items_def)
qed

lemma ncx_navMap:
  \<open>sublist (''  <navMap>\<newline>'' @ concat (navPoint_items b) @ ''  </navMap>'') (getNCX b)\<close>
  by (simp add: getNCX_def navPoints_def find_text)

lemma ncx_totalPageCount:
  \<open>sublist (''<meta name="dtb:totalPageCount" content="'' @ dec (length (pages b)) @ ''"/>'')
     (getNCX b)\<close>
  by (simp add: getNCX_def toString_def find_text)

lemma ncx_maxPageNumber:
  \<open>sublist (''<meta name="dtb:maxPageNumber" content="'' @ dec (length (pages b)) @ ''"/>'')
     (getNCX b)\<close>
  by (simp add: getNCX_def toString_def find_text)

lemma length_pages_foldl:
  "length (pages (foldl (\<lambda>b k. addPage b (img k) (w k) (h k) (pn k)) b0 ks))
     = length (pages b0) + length ks"
  by (induction ks arbitrary: b0) (simp_all add: addPage_def)








section \<open>Facts about the archive\<close>

lemma names_fixed_entries: "map name (fixed_entries opf b) = fixed_names"
  by (simp add: fixed_entries_def zip_file_def fixed_names_def)

lemma names_page_entries:
  "map name (page_entries b p) =
     [''OEBPS/xhtml/page_'' @ num (pageNum p) @ ''.xhtml'',
      ''OEBPS/images/page_'' @ num (pageNum p) @ ''.png'']"
  by (simp add: page_entries_def zip_file_def Let_def)

lemma names_generate:
  "map name (generate clock b) =
     fixed_names
     @ concat (map (\<lambda>p. [''OEBPS/xhtml/page_'' @ num (pageNum p) @ ''.xhtml'',
                          ''OEBPS/images/page_'' @ num (pageNum p) @ ''.png'']) (pages b))"
  by (simp add: generate_def names_fixed_entries map_concat comp_def names_page_entries)

lemma length_page_entries: "length (concat (map (page_entries b) ps)) = 2 * length ps"
  by (induction ps) (simp_all add: page_entries_def Let_def)

lemma length_generate: "length (generate clock b) = 6 + 2 * length (pages b)"
  by (simp add: generate_def fixed_entries_def length_page_entries)

lemma page_entries_compressed:
  "list_all (\<lambda>e. compression (options e) = None) (concat (map (page_entries b) ps))"
  by (induction ps) (simp_all add: page_entries_def zip_file_def no_options_def Let_def)

lemma page_entries_jsx_compressed:
  "list_all (\<lambda>e. compression (options e) = None) (concat (map (page_entries_jsx b) ps))"
  by (induction ps) (simp_all add: page_entries_jsx_def zip_file_def no_options_def Let_def)






section \<open>The properties of the specification\<close>

text \<open>
  C1. In both copies of the generator the first entry handed to the archive writer is
  named \<open>mimetype\<close>, its content is exactly \<open>application/epub+zip\<close> and it carries the
  compression directive \<open>STORE\<close>; no later entry carries any compression directive.
\<close>

theorem mimetype_first_and_stored:
  "generate clock b =
     \<lparr> name = ''mimetype'', data = Str ''application/epub+zip'',
       options = \<lparr> compression = Some ''STORE'', base64 = False \<rparr> \<rparr> # tl (generate clock b)
   \<and> list_all (\<lambda>e. compression (options e) = None) (tl (generate clock b))
   \<and> generate_jsx clock c =
     \<lparr> name = ''mimetype'', data = Str ''application/epub+zip'',
       options = \<lparr> compression = Some ''STORE'', base64 = False \<rparr> \<rparr> # tl (generate_jsx clock c)
   \<and> list_all (\<lambda>e. compression (options e) = None) (tl (generate_jsx clock c))"
  using page_entries_compressed [of b "pages b"] page_entries_jsx_compressed [of c "pages c"]
  by (simp add: generate_def generate_jsx_def fixed_entries_def zip_file_def no_options_def
      getMimetype_def)

theorem mimetype_first_and_stored_witness:
  "map name (generate clock_reading scenario_A) =
     [''mimetype'', ''META-INF/container.xml'', ''OEBPS/content.opf'', ''OEBPS/toc.ncx'',
      ''OEBPS/nav.xhtml'', ''OEBPS/styles/fixed-layout.css'',
      ''OEBPS/xhtml/page_001.xhtml'', ''OEBPS/images/page_001.png'']
   \<and> map (\<lambda>e. compression (options e)) (generate clock_reading scenario_A) =
     [Some ''STORE'', None, None, None, None, None, None, None]
   \<and> map (\<lambda>e. (compression (options e), base64 (options e)))
        (generate_jsx clock_reading data_url_book) =
     [(Some ''STORE'', False), (None, False), (None, False), (None, False), (None, False),
      (None, False), (None, False), (None, True)]
   \<and> data (last (generate_jsx clock_reading data_url_book)) = Str ''iVBORw0KGgo=''"
  using mimetype_first_and_stored [of clock_reading scenario_A data_url_book]
  by (simp add: generate_def generate_jsx_def fixed_entries_def zip_file_def no_options_def
      page_entries_def page_entries_jsx_def scenario_A_def data_url_book_def addPage_def
      new_EPUBGenerator_def num_1 Let_def nth_opt_def)

text \<open>
  C2. A Book without pages: generation raises nothing and hands over the six fixed
  entries, and the package document declares the resolution \<open>-Infinityx-Infinity\<close>,
  neither an error nor \<open>0x0\<close>.
\<close>

theorem empty_book_resolution:
  \<open>map name (generate clock empty_book) = fixed_names
   \<and> sublist ''<meta name="original-resolution" content="-Infinityx-Infinity"/>''
        (getContentOPF clock empty_book)
   \<and> data (generate clock empty_book ! 2) = Str (getContentOPF clock empty_book)\<close>
proof -
  have p: "pages empty_book = []"
    by (simp add: empty_book_def new_EPUBGenerator_def)
  have "jsnum_toString (maxWidth empty_book) = ''-Infinity''"
       "jsnum_toString (maxHeight empty_book) = ''-Infinity''"
    by (simp_all add: maxWidth_def maxHeight_def Math_max_def p)
  then have \<open>sublist ''<meta name="original-resolution" content="-Infinityx-Infinity"/>''
        (getContentOPF clock empty_book)\<close>
    using opf_resolution [of empty_book "''  ''" clock] by (simp add: getContentOPF_def)
  moreover have "map name (generate clock empty_book) = fixed_names"
    by (simp add: names_generate p)
  moreover have "data (generate clock empty_book ! 2) = Str (getContentOPF clock empty_book)"
    by (simp add: generate_def fixed_entries_def zip_file_def)
  ultimately show ?thesis by simp
qed

text \<open>
  C3, as the specification words it, fails: with two pages the calls that hand over the
  markup and the image entries alternate page by page, they are not grouped. The writer
  keeps the order of the calls, so the entries of the archive alternate as well.
\<close>

theorem entry_order_counterexample:
  "map name (generate clock_reading two_pages) \<noteq> section_4_3_sequence two_pages"
  by (simp add: names_generate section_4_3_sequence_def fixed_names_def two_pages_def
      addPage_def new_EPUBGenerator_def num_1 num_2)

text \<open>
  C3, amended. The entries handed to the archive writer, in the order of the
  \<open>zip.file\<close> calls, are the six fixed ones in the order of section 4.3, followed for every
  page, in the order the pages were added, by its markup entry and then its image entry,
  both named after the page's own number: six calls and two more per page. For a Book of
  one page numbered 1 these are exactly eight calls, with the names of section 4.3 and
  \<open>page_001\<close>. What the writer adds to them or merges is not part of the statement.
\<close>

theorem entry_order_interleaved:
  "length (generate clock b) = 6 + 2 * length (pages b)
   \<and> map name (generate clock b) =
     [''mimetype'', ''META-INF/container.xml'', ''OEBPS/content.opf'', ''OEBPS/toc.ncx'',
      ''OEBPS/nav.xhtml'', ''OEBPS/styles/fixed-layout.css'']
     @ concat (map (\<lambda>p. [''OEBPS/xhtml/page_'' @ num (pageNum p) @ ''.xhtml'',
                          ''OEBPS/images/page_'' @ num (pageNum p) @ ''.png'']) (pages b))
   \<and> (\<forall>p. pages b = [p] \<and> pageNum p = 1 \<longrightarrow>
        map name (generate clock b) =
          [''mimetype'', ''META-INF/container.xml'', ''OEBPS/content.opf'', ''OEBPS/toc.ncx'',
           ''OEBPS/nav.xhtml'', ''OEBPS/styles/fixed-layout.css'',
           ''OEBPS/xhtml/page_001.xhtml'', ''OEBPS/images/page_001.png''])"
  by (simp add: length_generate names_generate fixed_names_def num_1)

theorem entry_order_interleaved_witness:
  "pages scenario_A = [\<lparr> imageData = png_stub, width = 300, height = 400, pageNum = 1 \<rparr>]
   \<and> length (generate clock_reading scenario_A) = 8
   \<and> length (generate clock_reading two_pages) = 10
   \<and> map name (generate clock_reading scenario_A) =
       [''mimetype'', ''META-INF/container.xml'', ''OEBPS/content.opf'', ''OEBPS/toc.ncx'',
        ''OEBPS/nav.xhtml'', ''OEBPS/styles/fixed-layout.css'',
        ''OEBPS/xhtml/page_001.xhtml'', ''OEBPS/images/page_001.png'']
   \<and> map name (generate clock_reading two_pages) =
       [''mimetype'', ''META-INF/container.xml'', ''OEBPS/content.opf'', ''OEBPS/toc.ncx'',
        ''OEBPS/nav.xhtml'', ''OEBPS/styles/fixed-layout.css'',
        ''OEBPS/xhtml/page_001.xhtml'', ''OEBPS/images/page_001.png'',
        ''OEBPS/xhtml/page_002.xhtml'', ''OEBPS/images/page_002.png'']"
proof -
  have p: "pages scenario_A = [\<lparr> imageData = png_stub, width = 300, height = 400, pageNum = 1 \<rparr>]"
    by (simp add: scenario_A_def addPage_def new_EPUBGenerator_def)
  have q: "pages two_pages =
      [\<lparr> imageData = png_stub, width = 300, height = 400, pageNum = 1 \<rparr>,
       \<lparr> imageData = png_stub, width = 640, height = 200, pageNum = 2 \<rparr>]"
    by (simp add: two_pages_def addPage_def new_EPUBGenerator_def)
  show ?thesis
    using entry_order_interleaved [of clock_reading scenario_A]
      entry_order_interleaved [of clock_reading two_pages]
    by (simp add: p q num_1 num_2)
qed

text \<open>
  C4. In the package document the text of \<open>dc:title\<close> and of \<open>dc:creator\<close> is the escaped
  title and author: the five special characters occur in it only as their entities, and
  un-escaping it gives the original string back.
\<close>

theorem metadata_escaped_roundtrip:
  \<open>sublist (''<dc:title>'' @ escapeXML (title b) @ ''</dc:title>'') (getContentOPF clock b)
   \<and> sublist (''<dc:creator>'' @ escapeXML (author b) @ ''</dc:creator>'')
        (getContentOPF clock b)
   \<and> escapeXML (title b) = concat (map esc_char (title b))
   \<and> escapeXML (author b) = concat (map esc_char (author b))
   \<and> entities_only (escapeXML (title b)) \<and> entities_only (escapeXML (author b))
   \<and> unescapeXML (escapeXML (title b)) = title b
   \<and> unescapeXML (escapeXML (author b)) = author b\<close>
  using opf_title [of b "''  ''" clock] opf_creator [of b "''  ''" clock]
  by (simp add: getContentOPF_def entities_only_escapeXML unescapeXML_escapeXML
      escapeXML_chars [symmetric])

theorem metadata_escaped_roundtrip_witness:
  \<open>sublist ''<dc:title>Test</dc:title>'' (getContentOPF clock_reading scenario_A)
   \<and> sublist ''<dc:creator>Author &amp; Co.</dc:creator>'' (getContentOPF clock_reading scenario_A)
   \<and> unescapeXML ''Author &amp; Co.'' = ''Author & Co.''\<close>
proof -
  have t: "title scenario_A = ''Test''" and a: "author scenario_A = ''Author & Co.''"
    by (simp_all add: scenario_A_def addPage_def new_EPUBGenerator_def)
  have e: "escapeXML ''Test'' = ''Test''" "escapeXML ''Author & Co.'' = ''Author &amp; Co.''"
    by (simp_all add: escapeXML_def replaceAll_def)
  show ?thesis
    using metadata_escaped_roundtrip [of scenario_A clock_reading]
    by (simp add: t a e esc_char_def)
qed

text \<open>
  C5. With at least one page the declared original resolution is the greatest width,
  an \<open>x\<close>, and the greatest height, each maximum taken over all pages on its own.
\<close>

theorem resolution_is_maximum:
  assumes "pages b \<noteq> []"
  shows \<open>maxWidth b = Num (Max (width ` set (pages b)))
    \<and> maxHeight b = Num (Max (height ` set (pages b)))
    \<and> sublist
        (''<meta name="original-resolution" content="''
           @ toString (Max (width ` set (pages b))) @ ''x''
           @ toString (Max (height ` set (pages b))) @ ''"/>'')
        (getContentOPF clock b)\<close>
proof -
  have w: "maxWidth b = Num (Max (width ` set (pages b)))"
    using assms by (simp add: maxWidth_def Math_max_nonempty)
  have h: "maxHeight b = Num (Max (height ` set (pages b)))"
    using assms by (simp add: maxHeight_def Math_max_nonempty)
  show ?thesis
    using opf_resolution [of b "''  ''" clock] by (simp add: w h getContentOPF_def)
qed

theorem resolution_is_maximum_witness:
  \<open>pages two_pages \<noteq> []
   \<and> maxWidth two_pages = Num 640 \<and> maxHeight two_pages = Num 400
   \<and> sublist ''<meta name="original-resolution" content="640x400"/>''
        (getContentOPF clock_reading two_pages)\<close>
proof -
  have q: "pages two_pages =
      [\<lparr> imageData = png_stub, width = 300, height = 400, pageNum = 1 \<rparr>,
       \<lparr> imageData = png_stub, width = 640, height = 200, pageNum = 2 \<rparr>]"
    by (simp add: two_pages_def addPage_def new_EPUBGenerator_def)
  have n: "pages two_pages \<noteq> []" by (simp add: q)
  have s: "toString 640 = ''640''" "toString 400 = ''400''"
    by (simp_all add: toString_def dec.simps digit_char_def)
  show ?thesis
    using resolution_is_maximum [OF n, of clock_reading] by (simp add: q s)
qed

text \<open>
  C6. With at least one page, exactly one line of the manifest carries the cover marker:
  the image item of the first page. None of the three fixed items, no markup item and no
  later image item carries it.
\<close>

theorem cover_image_on_first_image_only:
  assumes "pages b \<noteq> []"
  shows \<open>filter has_cover_image (manifest_items b) = [manifest_image_item 0]
    \<and> manifest_image_item 0 =
        ''    <item id="img001" href="images/page_001.png" media-type="image/png" properties="cover-image"/>\<newline>''
    \<and> list_all (\<lambda>x. \<not> has_cover_image x) manifest_fixed_items
    \<and> (\<forall>i. \<not> has_cover_image (manifest_page_item i))
    \<and> (\<forall>i. has_cover_image (manifest_image_item i) \<longleftrightarrow> i = 0)
    \<and> sublist (''  <manifest>\<newline>'' @ concat (manifest_items b) @ ''  </manifest>'')
         (getContentOPF clock b)\<close>
  using cover_items [OF assms] first_image_item fixed_items_no_cover page_item_no_cover
    image_item_cover opf_manifest [of b "''  ''" clock]
  by (simp add: getContentOPF_def)

theorem cover_image_on_first_image_only_witness:
  \<open>pages two_pages \<noteq> []
   \<and> manifest_items two_pages =
      [''    <item id="css" href="styles/fixed-layout.css" media-type="text/css"/>\<newline>'',
       ''    <item id="ncx" href="toc.ncx" media-type="application/x-dtbncx+xml"/>\<newline>'',
       ''    <item id="nav" href="nav.xhtml" media-type="application/xhtml+xml" properties="nav"/>\<newline>'',
       ''    <item id="page001" href="xhtml/page_001.xhtml" media-type="application/xhtml+xml"/>\<newline>'',
       ''    <item id="page002" href="xhtml/page_002.xhtml" media-type="application/xhtml+xml"/>\<newline>'',
       ''    <item id="img001" href="images/page_001.png" media-type="image/png" properties="cover-image"/>\<newline>'',
       ''    <item id="img002" href="images/page_002.png" media-type="image/png"/>\<newline>'']
   \<and> filter has_cover_image (manifest_items two_pages) =
      [''    <item id="img001" href="images/page_001.png" media-type="image/png" properties="cover-image"/>\<newline>'']\<close>
proof -
  have n: "length (pages two_pages) = 2" and p: "pages two_pages \<noteq> []"
    by (simp_all add: two_pages_def addPage_def new_EPUBGenerator_def)
  have u: "[0..<2] = [0, Suc 0]" by (simp add: numeral_2_eq_2)
  have m: \<open>manifest_items two_pages =
      [''    <item id="css" href="styles/fixed-layout.css" media-type="text/css"/>\<newline>'',
       ''    <item id="ncx" href="toc.ncx" media-type="application/x-dtbncx+xml"/>\<newline>'',
       ''    <item id="nav" href="nav.xhtml" media-type="application/xhtml+xml" properties="nav"/>\<newline>'',
       ''    <item id="page001" href="xhtml/page_001.xhtml" media-type="application/xhtml+xml"/>\<newline>'',
       ''    <item id="page002" href="xhtml/page_002.xhtml" media-type="application/xhtml+xml"/>\<newline>'',
       ''    <item id="img001" href="images/page_001.png" media-type="image/png" properties="cover-image"/>\<newline>'',
       ''    <item id="img002" href="images/page_002.png" media-type="image/png"/>\<newline>'']\<close>
    by (simp add: manifest_items_def n u manifest_fixed_items_def manifest_page_item_def
        manifest_image_item_def num_1 num_2)
  from cover_image_on_first_image_only [OF p, of clock_reading]
  have \<open>filter has_cover_image (manifest_items two_pages) =
      [''    <item id="img001" href="images/page_001.png" media-type="image/png" properties="cover-image"/>\<newline>'']\<close>
    by simp
  then show ?thesis using p m by simp
qed

text \<open>
  C7. Whatever the random draws, the identifier has the shape
  \<open>xxxxxxxx-xxxx-4xxx-yxxx-xxxxxxxxxxxx\<close>; it is made by the constructor, and after any
  sequence of page additions, metadata assignments and generations the package document
  and the NCX still carry that same identifier.
\<close>

theorem identifier_generated_once:
  \<open>uuid_v4_shape (generateUUID rnd)
   \<and> uuid (foldl perform (new_EPUBGenerator opts rnd) as) = generateUUID rnd
   \<and> sublist (''<dc:identifier id="bookid">urn:uuid:'' @ generateUUID rnd @ ''</dc:identifier>'')
        (getContentOPF clock (foldl perform (new_EPUBGenerator opts rnd) as))
   \<and> sublist (''<meta name="dtb:uid" content="urn:uuid:'' @ generateUUID rnd @ ''"/>'')
        (getNCX (foldl perform (new_EPUBGenerator opts rnd) as))\<close>
proof -
  let ?b = "foldl perform (new_EPUBGenerator opts rnd) as"
  have u: "uuid ?b = generateUUID rnd"
    by (simp add: perform_all_uuid new_EPUBGenerator_def)
  have "uuid_v4_shape (generateUUID rnd)"
    unfolding uuid_v4_shape_def generateUUID_def by (rule replace_xy_matches)
  then show ?thesis
    using opf_identifier [of ?b "''  ''" clock] ncx_uid [of ?b]
    by (simp add: u getContentOPF_def)
qed

theorem identifier_generated_once_witness:
  \<open>generateUUID zero_draws = ''00000000-0000-4000-8000-000000000000''
   \<and> uuid_v4_shape ''00000000-0000-4000-8000-000000000000''
   \<and> sublist ''<dc:identifier id="bookid">urn:uuid:00000000-0000-4000-8000-000000000000</dc:identifier>''
        (getContentOPF clock_reading
          (foldl perform (new_EPUBGenerator no_metadata zero_draws)
            [Generate clock_reading, SetTitle ''Other'', AddPage png_stub 30 40 1]))\<close>
proof -
  have g: "generateUUID zero_draws = ''00000000-0000-4000-8000-000000000000''"
    by (simp add: generateUUID_def zero_draws_def toString16_def digit_char_def)
  show ?thesis
    using identifier_generated_once [of zero_draws no_metadata
        "[Generate clock_reading, SetTitle ''Other'', AddPage png_stub 30 40 1]" clock_reading]
    by (simp add: g)
qed

text \<open>
  C8. For a Book of n pages, n between 1 and 999, the NCX has n navigation points in page
  order; the one at position k has the identifier and play order k, the label
  \<open>Page k\<close> and the target \<open>xhtml/page_\<close> with k written in three digits; the total page
  count and the maximal page number are both n.
\<close>

theorem ncx_one_navPoint_per_page:
  assumes "1 \<le> length (pages b)" and "length (pages b) \<le> 999"
  shows \<open>length (navPoint_items b) = length (pages b)
    \<and> navPoint_items b = map expected_navPoint [1..<Suc (length (pages b))]
    \<and> sublist (''  <navMap>\<newline>'' @ concat (navPoint_items b) @ ''  </navMap>'') (getNCX b)
    \<and> sublist (''<meta name="dtb:totalPageCount" content="'' @ dec (length (pages b)) @ ''"/>'')
         (getNCX b)
    \<and> sublist (''<meta name="dtb:maxPageNumber" content="'' @ dec (length (pages b)) @ ''"/>'')
         (getNCX b)\<close>
proof -
  have l: "length (navPoint_items b) = length (pages b)"
    by (simp add: navPoint_items_def)
  show ?thesis
    by (intro conjI l navPoint_items_expected [OF assms(2)] ncx_navMap ncx_totalPageCount
        ncx_maxPageNumber)
qed

theorem ncx_one_navPoint_per_page_witness:
  \<open>1 \<le> length (pages twelve_pages) \<and> length (pages twelve_pages) \<le> 999
   \<and> length (navPoint_items twelve_pages) = 12
   \<and> navPoint_items twelve_pages ! 0 =
       ''    <navPoint id="navpoint1" playOrder="1">\<newline>'' @
       ''      <navLabel>\<newline>'' @
       ''        <text>Page 1</text>\<newline>'' @
       ''      </navLabel>\<newline>'' @
       ''      <content src="xhtml/page_001.xhtml"/>\<newline>'' @
       ''    </navPoint>\<newline>''
   \<and> navPoint_items twelve_pages ! 11 =
       ''    <navPoint id="navpoint12" playOrder="12">\<newline>'' @
       ''      <navLabel>\<newline>'' @
       ''        <text>Page 12</text>\<newline>'' @
       ''      </navLabel>\<newline>'' @
       ''      <content src="xhtml/page_012.xhtml"/>\<newline>'' @
       ''    </navPoint>\<newline>''
   \<and> map three_digits [1..<13] =
       [''001'', ''002'', ''003'', ''004'', ''005'', ''006'', ''007'', ''008'', ''009'', ''010'',
        ''011'', ''012'']\<close>
proof -
  have n: "length (pages twelve_pages) = 12"
    by (simp add: twelve_pages_def length_pages_foldl new_EPUBGenerator_def)
  have a: "1 \<le> length (pages twelve_pages)" and b: "length (pages twelve_pages) \<le> 999"
    by (simp_all add: n)
  have th: "length (navPoint_items twelve_pages) = length (pages twelve_pages)
      \<and> navPoint_items twelve_pages =
          map expected_navPoint [1..<Suc (length (pages twelve_pages))]"
    using ncx_one_navPoint_per_page [OF a b] by blast
  have i: "navPoint_items twelve_pages ! 0 = expected_navPoint (Suc 0)"
          "navPoint_items twelve_pages ! 11 = expected_navPoint 12"
    using th by (simp_all add: n)
  have d: "dec (Suc 0) = ''1''" "dec 12 = ''12''"
    by (simp_all add: dec.simps digit_char_def)
  have t: "three_digits (Suc 0) = ''001''" "three_digits 12 = ''012''"
    by (simp_all add: three_digits_def digit_char_def)
  have m: "map three_digits [1..<13] =
       [''001'', ''002'', ''003'', ''004'', ''005'', ''006'', ''007'', ''008'', ''009'', ''010'',
        ''011'', ''012'']"
    by code_simp
  have l: "length (navPoint_items twelve_pages) = 12"
    using th by (simp add: n)
  show ?thesis
    by (intro conjI a b l m) (simp_all add: i expected_navPoint_def d t)
qed




text \<open>
  C10. The constructor treats an empty title, author or language as it treats an absent
  one: the Book carries the default, and no metadata field of a new Book is empty.
\<close>

theorem empty_metadata_defaults:
  "(new_EPUBGenerator (opts\<lparr> opt_title := Some [] \<rparr>) rnd :: 'img EPUBGenerator) =
     new_EPUBGenerator (opts\<lparr> opt_title := None \<rparr>) rnd
   \<and> (new_EPUBGenerator (opts\<lparr> opt_author := Some [] \<rparr>) rnd :: 'img EPUBGenerator) =
     new_EPUBGenerator (opts\<lparr> opt_author := None \<rparr>) rnd
   \<and> (new_EPUBGenerator (opts\<lparr> opt_language := Some [] \<rparr>) rnd :: 'img EPUBGenerator) =
     new_EPUBGenerator (opts\<lparr> opt_language := None \<rparr>) rnd
   \<and> title (new_EPUBGenerator (opts\<lparr> opt_title := Some [] \<rparr>) rnd :: 'img EPUBGenerator)
       = ''Untitled''
   \<and> author (new_EPUBGenerator (opts\<lparr> opt_author := Some [] \<rparr>) rnd :: 'img EPUBGenerator)
       = ''Unknown''
   \<and> language (new_EPUBGenerator (opts\<lparr> opt_language := Some [] \<rparr>) rnd :: 'img EPUBGenerator)
       = ''en''
   \<and> title (new_EPUBGenerator opts rnd :: 'img EPUBGenerator) \<noteq> []
   \<and> author (new_EPUBGenerator opts rnd :: 'img EPUBGenerator) \<noteq> []
   \<and> language (new_EPUBGenerator opts rnd :: 'img EPUBGenerator) \<noteq> []"
  by (cases "opt_title opts"; cases "opt_author opts"; cases "opt_language opts")
     (simp_all add: new_EPUBGenerator_def)


end
